theory Spec2Isabelle
  imports Complex_Main
begin

section \<open>Data model\<close>

text \<open>
  The library class \<open>Contract\<close> is referenced by the bridge through its numeric id
  \<open>conId\<close> only; \<open>symbol\<close> stands for the descriptive fields, which the modelled
  code stores and never reads.
\<close>

record Contract =
  conId :: int
  symbol :: string

text \<open>
  \<open>types.py\<close>, class \<open>Position\<close>. The \<open>Decimal\<close> quantity and the \<open>float\<close> cost are
  only stored and handed back, never computed with.
\<close>

record Position =
  account :: string
  contract :: Contract
  position :: rat
  average_cost :: real

text \<open>
  \<open>Position.__hash__\<close> is \<open>hash((self.account, self.contract.conId))\<close>. Python's
  built-in \<open>hash\<close> on the pair is a parameter \<open>h\<close> of the model.
\<close>

definition Position_hash :: "(string \<times> int \<Rightarrow> int) \<Rightarrow> Position \<Rightarrow> int" where
  "Position_hash h p = h (account p, conId (contract p))"

text \<open>
  \<open>Position.__eq__\<close>: the \<open>isinstance\<close> test always succeeds on a typed \<open>Position\<close>;
  the result is \<open>hash(self) == hash(other)\<close>.
\<close>

definition Position_eq :: "(string \<times> int \<Rightarrow> int) \<Rightarrow> Position \<Rightarrow> Position \<Rightarrow> bool" where
  "Position_eq h p q = (Position_hash h p = Position_hash h q)"

text \<open>
  Python's \<open>set.add\<close> under a user-defined \<open>__hash__\<close>/\<open>__eq__\<close>: when the set already
  holds an element equal to the new one, the set is left as it is (the stored object is
  kept); otherwise the new element is inserted.
\<close>

definition set_add :: "(string \<times> int \<Rightarrow> int) \<Rightarrow> Position \<Rightarrow> Position set \<Rightarrow> Position set" where
  "set_add h p S = (if \<exists>q\<in>S. Position_eq h p q then S else insert p S)"

text \<open>\<open>client.py\<close>, class \<open>MarketData\<close>: two dictionaries keyed by tick-kind name.\<close>

record MarketData =
  price :: "string \<rightharpoonup> real"
  size :: "string \<rightharpoonup> int"

definition MarketData_new :: MarketData where
  "MarketData_new = \<lparr>price = Map.empty, size = Map.empty\<rparr>"

text \<open>
  \<open>client.py\<close>, class \<open>IBKRWrapper\<close>: the four attributes assigned by \<open>__init__\<close>. The
  \<open>asyncio.Event\<close> is its flag.
\<close>

record IBKRWrapper =
  position_event :: bool
  positions :: "Position set"
  market_data_request_ids :: "int \<rightharpoonup> Contract"
  market_data :: "int \<rightharpoonup> MarketData"

definition IBKRWrapper_init :: IBKRWrapper where
  "IBKRWrapper_init =
     \<lparr>position_event = False, positions = {},
      market_data_request_ids = Map.empty, market_data = Map.empty\<rparr>"

datatype error =
    AttributeError string
  | KeyError int
  | BadMessage

section \<open>Market-data callbacks\<close>

text \<open>
  Reading a request-id dictionary attribute of the wrapper by name. The instance has the
  attributes that \<open>__init__\<close> assigns (the library base class \<open>EWrapper\<close> assigns none);
  the only dictionary from request ids to contracts is \<open>market_data_request_ids\<close>.
  Reading a name that was never assigned raises \<open>AttributeError\<close>.
\<close>

definition getattr_request_ids :: "IBKRWrapper \<Rightarrow> string \<Rightarrow> error + (int \<rightharpoonup> Contract)" where
  "getattr_request_ids w name =
     (if name = ''market_data_request_ids'' then Inr (market_data_request_ids w)
      else Inl (AttributeError name))"

definition initiate_market_data_request :: "IBKRWrapper \<Rightarrow> int \<Rightarrow> Contract \<Rightarrow> IBKRWrapper" where
  "initiate_market_data_request w request_id c =
     w\<lparr>market_data_request_ids := (market_data_request_ids w)(request_id \<mapsto> c),
       market_data := (market_data w)(conId c \<mapsto> MarketData_new)\<rparr>"

text \<open>
  \<open>tickPrice\<close> reads \<open>self._market_data_request_ids\<close> (with a leading underscore), then
  \<open>.get(reqId)\<close>; on \<open>None\<close> it logs and returns. Otherwise the assignment evaluates
  \<open>self.market_data[contract.conId]\<close> (\<open>KeyError\<close> when absent), then
  \<open>TickTypeEnum.idx2name[tickType]\<close> (\<open>KeyError\<close> when absent) and stores the price.
  The library table \<open>idx2name\<close> is a parameter. The fourth argument of the callback is
  ignored by the source.
\<close>

definition tickPrice :: "(int \<rightharpoonup> string) \<Rightarrow> IBKRWrapper \<Rightarrow> int \<Rightarrow> int \<Rightarrow> real \<Rightarrow> error + IBKRWrapper" where
  "tickPrice idx2name w reqId tickType pr =
     (case getattr_request_ids w ''_market_data_request_ids'' of
        Inl e \<Rightarrow> Inl e
      | Inr ids \<Rightarrow>
          (case ids reqId of
             None \<Rightarrow> Inr w
           | Some c \<Rightarrow>
               (case market_data w (conId c) of
                  None \<Rightarrow> Inl (KeyError (conId c))
                | Some md \<Rightarrow>
                    (case idx2name tickType of
                       None \<Rightarrow> Inl (KeyError tickType)
                     | Some name \<Rightarrow>
                         Inr (w\<lparr>market_data := (market_data w)
                                 (conId c \<mapsto> md\<lparr>price := (price md)(name \<mapsto> pr)\<rparr>)\<rparr>)))))"

text \<open>
  \<open>tickSize\<close> has the same shape; its test is \<open>if not contract\<close>, and a \<open>Contract\<close>
  object is truthy, so only \<open>None\<close> takes the logging branch.
\<close>

definition tickSize :: "(int \<rightharpoonup> string) \<Rightarrow> IBKRWrapper \<Rightarrow> int \<Rightarrow> int \<Rightarrow> int \<Rightarrow> error + IBKRWrapper" where
  "tickSize idx2name w reqId tickType sz =
     (case getattr_request_ids w ''_market_data_request_ids'' of
        Inl e \<Rightarrow> Inl e
      | Inr ids \<Rightarrow>
          (case ids reqId of
             None \<Rightarrow> Inr w
           | Some c \<Rightarrow>
               (case market_data w (conId c) of
                  None \<Rightarrow> Inl (KeyError (conId c))
                | Some md \<Rightarrow>
                    (case idx2name tickType of
                       None \<Rightarrow> Inl (KeyError tickType)
                     | Some name \<Rightarrow>
                         Inr (w\<lparr>market_data := (market_data w)
                                 (conId c \<mapsto> md\<lparr>size := (size md)(name \<mapsto> sz)\<rparr>)\<rparr>)))))"

section \<open>Position callbacks\<close>

text \<open>
  The wrapper method \<open>position\<close> (named \<open>position_callback\<close> here, since the record
  field of \<open>Position\<close> already has that name) builds a \<open>Position\<close> and adds it to the set.
\<close>

definition position_callback ::
  "(string \<times> int \<Rightarrow> int) \<Rightarrow> IBKRWrapper \<Rightarrow> string \<Rightarrow> Contract \<Rightarrow> rat \<Rightarrow> real \<Rightarrow> IBKRWrapper" where
  "position_callback h w acct c qty avgCost =
     w\<lparr>positions :=
         set_add h \<lparr>account = acct, contract = c, position = qty, average_cost = avgCost\<rparr>
           (positions w)\<rparr>"

definition positionEnd :: "IBKRWrapper \<Rightarrow> IBKRWrapper" where
  "positionEnd w = w\<lparr>position_event := True\<rparr>"

text \<open>\<open>IBKRClient.get_market_data\<close>: \<open>self._wrapper.market_data.get(contract.conId)\<close>.\<close>

definition get_market_data :: "IBKRWrapper \<Rightarrow> Contract \<Rightarrow> MarketData option" where
  "get_market_data w c = market_data w (conId c)"

section \<open>External collaborators\<close>

text \<open>
  What the bridge consumes from the protocol library and the Python runtime, taken as
  parameters: the maximum message length and the constants of the bad-length error, the
  field splitter \<open>comm.read_fields\<close>, the decoder's mapping from parsed fields to the
  wrapper callback it invokes (or the exception it raises itself), the tick-kind name table
  and the built-in \<open>hash\<close> on (account, id) pairs.
\<close>

datatype callback =
    TickPrice int int real
  | TickSize int int int
  | PositionCb string Contract rat real
  | PositionEndCb
  | OtherCb

record externals =
  MAX_MSG_LEN :: nat
  NO_VALID_ID :: int
  BAD_LENGTH_code :: int
  BAD_LENGTH_msg :: string
  read_fields :: "string \<Rightarrow> string list"
  decode :: "string list \<Rightarrow> error + callback"
  idx2name :: "int \<rightharpoonup> string"
  py_hash :: "string \<times> int \<Rightarrow> int"

text \<open>
  One callback invocation on the wrapper. \<open>OtherCb\<close> stands for any callback that
  \<open>IBKRWrapper\<close> inherits unchanged from \<open>EWrapper\<close>; it touches none of the stores.
\<close>

fun dispatch :: "externals \<Rightarrow> callback \<Rightarrow> IBKRWrapper \<Rightarrow> error + IBKRWrapper" where
  "dispatch L (TickPrice reqId tickType pr) w = tickPrice (idx2name L) w reqId tickType pr"
| "dispatch L (TickSize reqId tickType sz) w = tickSize (idx2name L) w reqId tickType sz"
| "dispatch L (PositionCb acct c qty avgCost) w =
     Inr (position_callback (py_hash L) w acct c qty avgCost)"
| "dispatch L PositionEndCb w = Inr (positionEnd w)"
| "dispatch L OtherCb w = Inr w"

text \<open>\<open>decoder.interpret(fields)\<close>: the decoder raises, or invokes one callback.\<close>

definition decoder_interpret :: "externals \<Rightarrow> string list \<Rightarrow> IBKRWrapper \<Rightarrow> error + IBKRWrapper" where
  "decoder_interpret L flds w = (case decode L flds of Inl e \<Rightarrow> Inl e | Inr cb \<Rightarrow> dispatch L cb w)"

section \<open>Awaiting the position batch\<close>

text \<open>
  \<open>wait_for_positions\<close> is a coroutine; while it is suspended (in a sleep, or in the
  event's wait) the pump thread delivers callbacks to the same wrapper. The environment
  is a schedule: a list of batches, the \<open>k\<close>-th batch being the callbacks delivered
  during the \<open>k\<close>-th suspension; after the last batch nothing more is ever delivered.
  A callback that raises does so on the pump's side and leaves the wrapper as it was.
\<close>

definition deliver :: "externals \<Rightarrow> callback \<Rightarrow> IBKRWrapper \<Rightarrow> IBKRWrapper" where
  "deliver L cb w = (case dispatch L cb w of Inl e \<Rightarrow> w | Inr w' \<Rightarrow> w')"

definition deliver_batch :: "externals \<Rightarrow> callback list \<Rightarrow> IBKRWrapper \<Rightarrow> IBKRWrapper" where
  "deliver_batch L b w = fold (deliver L) b w"

definition next_batch :: "'a list list \<Rightarrow> 'a list" where
  "next_batch env = (case env of [] \<Rightarrow> [] | b # _ \<Rightarrow> b)"

text \<open>
  The observable steps of one call. \<open>Sleep n\<close> is \<open>await asyncio.sleep(n / 10)\<close>: the
  duration is recorded by its numerator, in tenths of a time unit.
\<close>

datatype await_step = IsSet bool | Sleep nat | EventWait | Clear

text \<open>
  The loop \<open>for n in range(10): if is_set(): break; await sleep(n / 10)\<close>, over the
  list of remaining values of \<open>n\<close>.
\<close>

fun poll ::
  "externals \<Rightarrow> nat list \<Rightarrow> callback list list \<Rightarrow> IBKRWrapper
     \<Rightarrow> await_step list \<times> callback list list \<times> IBKRWrapper" where
  "poll L [] env w = ([], env, w)"
| "poll L (n # ns) env w =
     (if position_event w then ([IsSet True], env, w)
      else (case poll L ns (drop 1 env) (deliver_batch L (next_batch env) w) of
              (tr, env', w') \<Rightarrow> (IsSet False # Sleep n # tr, env', w')))"

text \<open>
  \<open>await self.position_event.wait()\<close>: returns at once when the flag is set, otherwise
  stays suspended while batches are delivered, until the flag is set. When the schedule
  ends with the flag unset the call is suspended for ever: \<open>None\<close>.
\<close>

fun event_wait ::
  "externals \<Rightarrow> callback list list \<Rightarrow> IBKRWrapper \<Rightarrow> (callback list list \<times> IBKRWrapper) option" where
  "event_wait L [] w = (if position_event w then Some ([], w) else None)"
| "event_wait L (b # bs) w =
     (if position_event w then Some (b # bs, w) else event_wait L bs (deliver_batch L b w))"

text \<open>
  The whole call: the trace of its steps, and on return the returned set, the wrapper
  after \<open>clear()\<close> and the rest of the schedule.
\<close>

definition wait_for_positions ::
  "externals \<Rightarrow> callback list list \<Rightarrow> IBKRWrapper
     \<Rightarrow> await_step list \<times> (Position set \<times> IBKRWrapper \<times> callback list list) option" where
  "wait_for_positions L env w =
     (case poll L [0..<10] env w of
        (tr, env1, w1) \<Rightarrow>
          (case event_wait L env1 w1 of
             None \<Rightarrow> (tr @ [EventWait], None)
           | Some (env2, w2) \<Rightarrow>
               (tr @ [EventWait, Clear],
                Some (positions w2, w2\<lparr>position_event := False\<rparr>, env2))))"


text \<open>The steps of \<open>k\<close> poll iterations that all found the flag unset.\<close>

definition unarmed_polls :: "nat list \<Rightarrow> await_step list" where
  "unarmed_polls ns = concat (map (\<lambda>n. [IsSet False, Sleep n]) ns)"

text \<open>A schedule during which the batch-end callback is never delivered.\<close>

definition quiet :: "callback list list \<Rightarrow> bool" where
  "quiet env = (\<forall>b\<in>set env. PositionEndCb \<notin> set b)"


section \<open>The client: connection and pump\<close>

datatype ConnState = Disconnected | Connecting | Connected

text \<open>
  The client object: the connection state and inbound queue it inherits from \<open>EClient\<close>,
  its wrapper, and four records of what was done to the outside: the arguments of every
  \<open>wrapper.error\<close> call (id, code, and the three parts of the formatted message), the
  field lists handed to \<open>decoder.interpret\<close>, and the numbers of \<open>disconnect()\<close> calls,
  of transport connects and of pump threads started.
\<close>

record IBKRClient =
  connState :: ConnState
  msg_queue :: "string list"
  wrapper :: IBKRWrapper
  reported_errors :: "(int \<times> int \<times> string \<times> nat \<times> string) list"
  interpreted :: "string list list"
  disconnect_calls :: nat
  transport_opens :: nat
  pump_threads :: nat

text \<open>
  Modelled from the spec: \<open>EClient.isConnected\<close>, \<open>EClient.disconnect\<close> and
  \<open>EClient.connect\<close> belong to the protocol library and are not in the repository.
  \<open>isConnected\<close> reports whether the state is \<open>Connected\<close>; disconnect cleanup makes
  the connection \<open>Disconnected\<close>; the transport connect opens the transport and leaves
  the state that the handshake produced, which is a parameter.
\<close>

definition isConnected :: "IBKRClient \<Rightarrow> bool" where
  "isConnected c = (connState c = Connected)"

definition disconnect :: "IBKRClient \<Rightarrow> IBKRClient" where
  "disconnect c = c\<lparr>connState := Disconnected, disconnect_calls := disconnect_calls c + 1\<rparr>"

definition EClient_connect :: "ConnState \<Rightarrow> IBKRClient \<Rightarrow> IBKRClient" where
  "EClient_connect handshake c =
     c\<lparr>connState := handshake, transport_opens := transport_opens c + 1\<rparr>"

definition wrapper_error :: "IBKRClient \<Rightarrow> int \<Rightarrow> int \<Rightarrow> string \<times> nat \<times> string \<Rightarrow> IBKRClient" where
  "wrapper_error c reqId code msg = c\<lparr>reported_errors := reported_errors c @ [(reqId, code, msg)]\<rparr>"

text \<open>
  \<open>IBKRClient.connect\<close>: \<open>super().connect(...)\<close>, then one
  \<open>threading.Thread(target=self.run).start()\<close>, then a fixed sleep. There is no test of
  the current state.
\<close>

definition connect :: "ConnState \<Rightarrow> string \<Rightarrow> int \<Rightarrow> int \<Rightarrow> IBKRClient \<Rightarrow> IBKRClient" where
  "connect handshake host port client_id c =
     (let c' = EClient_connect handshake c in c'\<lparr>pump_threads := pump_threads c' + 1\<rparr>)"

definition is_connected :: "IBKRClient \<Rightarrow> bool" where
  "is_connected c = isConnected c"

text \<open>
  \<open>server.py\<close>, \<open>ensure_ibkr_connection\<close>: the wrapped function runs after
  \<open>if not ibkr_client.is_connected(): ibkr_client.connect(...)\<close>. Host, port and client
  id are the values already read from the process environment.
\<close>

definition ensure_ibkr_connection ::
  "ConnState \<Rightarrow> string \<Rightarrow> int \<Rightarrow> int \<Rightarrow> (IBKRClient \<Rightarrow> 'r \<times> IBKRClient) \<Rightarrow> IBKRClient
     \<Rightarrow> 'r \<times> IBKRClient" where
  "ensure_ibkr_connection handshake host port client_id func c =
     func (if \<not> is_connected c then connect handshake host port client_id c else c)"

text \<open>
  What the other threads do to the client while the pump runs: the reader thread puts a
  message on the queue, or the transport goes down.
\<close>

datatype transport_event = Arrive string | ConnLost

fun apply_event :: "transport_event \<Rightarrow> IBKRClient \<Rightarrow> IBKRClient" where
  "apply_event (Arrive m) c = c\<lparr>msg_queue := msg_queue c @ [m]\<rparr>"
| "apply_event ConnLost c = c\<lparr>connState := Disconnected\<rparr>"

text \<open>
  One pass through the body of the \<open>while\<close> loop of \<open>run\<close>. The batch is what the
  other threads did up to the end of the 0.2 unit window of \<open>msg_queue.get\<close>. An empty
  queue then is \<open>queue.Empty\<close> and \<open>continue\<close>; an oversized message is reported and
  \<open>break\<close>s; any other message is split into fields and interpreted, and an exception
  raised there propagates.
\<close>

datatype body_result = Continue IBKRClient | Break IBKRClient | Raise error IBKRClient

definition loop_body :: "externals \<Rightarrow> transport_event list \<Rightarrow> IBKRClient \<Rightarrow> body_result" where
  "loop_body L batch c =
     (let c1 = fold apply_event batch c in
      case msg_queue c1 of
        [] \<Rightarrow> Continue c1
      | text # rest \<Rightarrow>
          (let c2 = c1\<lparr>msg_queue := rest\<rparr> in
           if length text > MAX_MSG_LEN L then
             Break (wrapper_error c2 (NO_VALID_ID L) (BAD_LENGTH_code L)
                      (BAD_LENGTH_msg L, length text, text))
           else
             (let flds = read_fields L text;
                  c3 = c2\<lparr>interpreted := interpreted c2 @ [flds]\<rparr> in
              case decoder_interpret L flds (wrapper c3) of
                Inl e \<Rightarrow> Raise e c3
              | Inr w' \<Rightarrow> Continue (c3\<lparr>wrapper := w'\<rparr>))))"

text \<open>
  The loop itself, \<open>while self.isConnected() or not self.msg_queue.empty()\<close>. It need
  not end (a live connection with nothing arriving keeps it turning), so it is a partial
  function: \<open>None\<close> is a pump that never leaves the loop.
\<close>

datatype loop_exit = GuardExhausted | Broke | Raised error

partial_function (option) run_loop ::
  "externals \<Rightarrow> transport_event list list \<Rightarrow> IBKRClient \<Rightarrow> (loop_exit \<times> IBKRClient) option" where
  "run_loop L env c =
     (if isConnected c \<or> msg_queue c \<noteq> [] then
        (case loop_body L (next_batch env) c of
           Continue c' \<Rightarrow> run_loop L (drop 1 env) c'
         | Break c' \<Rightarrow> Some (Broke, c')
         | Raise e c' \<Rightarrow> Some (Raised e, c'))
      else Some (GuardExhausted, c))"

text \<open>
  \<open>run\<close>: the loop, then \<open>self.disconnect()\<close>. An exception out of the loop skips the
  statement after it; the result is then \<open>Inl\<close> the exception, with the client as the
  exception left it.
\<close>

definition run ::
  "externals \<Rightarrow> transport_event list list \<Rightarrow> IBKRClient \<Rightarrow> (error \<times> IBKRClient + IBKRClient) option" where
  "run L env c =
     (case run_loop L env c of
        None \<Rightarrow> None
      | Some (Raised e, c') \<Rightarrow> Some (Inl (e, c'))
      | Some (_, c') \<Rightarrow> Some (Inr (disconnect c')))"

text \<open>The client that a pass through the loop body leaves, whichever way it ends.\<close>

definition body_client :: "body_result \<Rightarrow> IBKRClient" where
  "body_client r = (case r of Continue c \<Rightarrow> c | Break c \<Rightarrow> c | Raise e c \<Rightarrow> c)"

section \<open>Example inputs\<close>

text \<open>Concrete values at which the theorems below are evaluated.\<close>

definition contract7 :: Contract where
  "contract7 = \<lparr>conId = 7, symbol = ''ACME''\<rparr>"

definition tick_names :: "int \<rightharpoonup> string" where
  "tick_names = [1 \<mapsto> ''BID'', 2 \<mapsto> ''ASK'']"

definition sample_decode :: "string list \<Rightarrow> error + callback" where
  "sample_decode flds =
     (if flds = [''tick''] then Inr (TickPrice 42 1 101.5)
      else if flds = [''pos''] then Inr (PositionCb ''U123'' contract7 100 55.2)
      else if flds = [''end''] then Inr PositionEndCb
      else Inl BadMessage)"

definition sample_externals :: externals where
  "sample_externals =
     \<lparr>MAX_MSG_LEN = 8, NO_VALID_ID = - 1, BAD_LENGTH_code = 507,
      BAD_LENGTH_msg = ''Bad message length'',
      read_fields = (\<lambda>text. [text]), decode = sample_decode,
      idx2name = tick_names, py_hash = (\<lambda>k. int (length (fst k)) + snd k)\<rparr>"

definition client_in :: "ConnState \<Rightarrow> string list \<Rightarrow> IBKRClient" where
  "client_in st q =
     \<lparr>connState = st, msg_queue = q, wrapper = IBKRWrapper_init, reported_errors = [],
      interpreted = [], disconnect_calls = 0, transport_opens = 0, pump_threads = 0\<rparr>"



section \<open>The market-data store\<close>

lemma tickPrice_raises:
  "tickPrice names w reqId tickType pr = Inl (AttributeError ''_market_data_request_ids'')"
  by (simp add: tickPrice_def getattr_request_ids_def)

lemma tickSize_raises:
  "tickSize names w reqId tickType sz = Inl (AttributeError ''_market_data_request_ids'')"
  by (simp add: tickSize_def getattr_request_ids_def)

lemma get_after_initiate:
  "get_market_data (initiate_market_data_request w request_id c) c = Some MarketData_new"
  by (simp add: get_market_data_def initiate_market_data_request_def)

text \<open>
  Claim C2. A tick callback for a request id that was never registered should leave every
  store unchanged and should not raise. On the fresh wrapper, where id 7 is unknown, both
  callbacks raise \<open>AttributeError\<close>: the attribute they read, \<open>_market_data_request_ids\<close>,
  is not the one \<open>__init__\<close> assigns, so the branch that logs and drops the tick is
  never reached.
\<close>

theorem unknown_id_tick_raises:
  "market_data_request_ids IBKRWrapper_init 7 = None
   \<and> tickPrice tick_names IBKRWrapper_init 7 1 101.5
       = Inl (AttributeError ''_market_data_request_ids'')
   \<and> tickSize tick_names IBKRWrapper_init 7 1 300
       = Inl (AttributeError ''_market_data_request_ids'')"
  by (simp add: tickPrice_raises tickSize_raises IBKRWrapper_init_def)

text \<open>
  Claim C3. After a request registered under id 42, the price tick (42, BID, 101.5) should
  put 101.5 under \<open>BID\<close> in the subject's record. The callback raises instead, and the
  record read back is still the empty one created by the request.
\<close>

theorem resolved_tick_not_recorded:
  "market_data_request_ids (initiate_market_data_request IBKRWrapper_init 42 contract7) 42
     = Some contract7
   \<and> tickPrice tick_names (initiate_market_data_request IBKRWrapper_init 42 contract7) 42 1 101.5
       = Inl (AttributeError ''_market_data_request_ids'')
   \<and> get_market_data (initiate_market_data_request IBKRWrapper_init 42 contract7) contract7
       = Some \<lparr>price = Map.empty, size = Map.empty\<rparr>"
  by (simp add: tickPrice_raises get_after_initiate MarketData_new_def)
     (simp add: initiate_market_data_request_def)

text \<open>
  Claim C6. Whatever state the wrapper is in after a first request for a subject and any
  callbacks delivered since, a second request for the same subject leaves the subject's
  record with empty price and size maps, and that is what \<open>get_market_data\<close> returns.
\<close>

theorem second_request_resets_record:
  "get_market_data
     (initiate_market_data_request
        (deliver_batch L cbs (initiate_market_data_request w id1 c)) id2 c) c
   = Some \<lparr>price = Map.empty, size = Map.empty\<rparr>"
  by (simp add: get_after_initiate MarketData_new_def)

text \<open>
  Claim C10. No operation removes an entry of the request-id map, so after a second
  request for the same subject the first id still resolves to it; a tick tagged with the
  first id should then be written into the subject's fresh record. The entry is indeed
  still there, but the tick callback raises and writes nothing.
\<close>

theorem superseded_id_tick_raises:
  "market_data_request_ids
     (initiate_market_data_request (initiate_market_data_request w id1 c) id2 c) id1 = Some c
   \<and> tickPrice names
       (initiate_market_data_request (initiate_market_data_request w id1 c) id2 c) id1 tickType pr
     = Inl (AttributeError ''_market_data_request_ids'')"
  by (simp add: tickPrice_raises) (simp add: initiate_market_data_request_def)

section \<open>The position set\<close>

text \<open>Adding never removes or replaces an element that is already stored.\<close>

lemma set_add_keeps: "S \<subseteq> set_add h p S"
  by (auto simp: set_add_def)

lemma position_callback_keeps:
  "positions w \<subseteq> positions (position_callback h w acct c qty avgCost)"
  by (simp add: position_callback_def set_add_keeps)

text \<open>
  Claim C1. Two position callbacks for the same account and subject should leave one
  entry holding the later quantity and cost. With any hash function the set does hold one
  entry after (U123, 7, 100, 55.2) and (U123, 7, 150, 56.0), but it is the first one:
  \<open>set.add\<close> finds an equal element and keeps it.
\<close>

theorem repeated_position_keeps_first:
  "positions
     (position_callback h
        (position_callback h IBKRWrapper_init ''U123'' contract7 100 55.2)
        ''U123'' contract7 150 56.0)
   = {\<lparr>account = ''U123'', contract = contract7, position = 100, average_cost = 55.2\<rparr>}"
  by (simp add: position_callback_def set_add_def Position_eq_def Position_hash_def
        IBKRWrapper_init_def)

section \<open>Awaiting the position batch: properties\<close>







lemma deliver_keeps_flag:
  "cb \<noteq> PositionEndCb \<Longrightarrow> position_event (deliver L cb w) = position_event w"
  by (cases cb) (simp_all add: deliver_def tickPrice_raises tickSize_raises position_callback_def)

lemma deliver_batch_Cons:
  "deliver_batch L (cb # b) w = deliver_batch L b (deliver L cb w)"
  by (simp add: deliver_batch_def)

lemma deliver_batch_keeps_flag:
  "PositionEndCb \<notin> set b \<Longrightarrow> position_event (deliver_batch L b w) = position_event w"
proof (induction b arbitrary: w)
  case Nil
  show ?case by (simp add: deliver_batch_def)
next
  case (Cons cb b)
  from Cons.prems have ne: "cb \<noteq> PositionEndCb" and rest: "PositionEndCb \<notin> set b"
    by auto
  have "position_event (deliver_batch L (cb # b) w) = position_event (deliver L cb w)"
    unfolding deliver_batch_Cons by (rule Cons.IH[OF rest])
  also have "\<dots> = position_event w"
    by (rule deliver_keeps_flag[OF ne])
  finally show ?case .
qed

lemma quiet_next_batch: "quiet env \<Longrightarrow> PositionEndCb \<notin> set (next_batch env)"
  by (cases env) (simp_all add: quiet_def next_batch_def)

lemma quiet_drop: "quiet env \<Longrightarrow> quiet (drop n env)"
  by (auto simp: quiet_def dest: in_set_dropD)

lemma poll_quiet:
  "\<not> position_event w \<Longrightarrow> quiet env \<Longrightarrow>
   \<exists>env' w'. poll L ns env w = (unarmed_polls ns, env', w') \<and> \<not> position_event w' \<and> quiet env'"
proof (induction ns arbitrary: env w)
  case Nil
  then show ?case by (simp add: unarmed_polls_def)
next
  case (Cons n ns)
  have "\<not> position_event (deliver_batch L (next_batch env) w)"
    using Cons.prems by (simp add: deliver_batch_keeps_flag quiet_next_batch)
  from Cons.IH[OF this quiet_drop[OF Cons.prems(2), of 1]]
  obtain env' w' where
    "poll L ns (drop 1 env) (deliver_batch L (next_batch env) w) = (unarmed_polls ns, env', w')"
    "\<not> position_event w'" "quiet env'" by blast
  with Cons.prems(1) show ?case by (simp add: unarmed_polls_def)
qed

lemma event_wait_quiet:
  "\<not> position_event w \<Longrightarrow> quiet env \<Longrightarrow> event_wait L env w = None"
proof (induction env arbitrary: w)
  case Nil
  then show ?case by simp
next
  case (Cons b bs)
  then have "\<not> position_event (deliver_batch L b w)" "quiet bs"
    by (simp_all add: deliver_batch_keeps_flag quiet_def)
  with Cons show ?case by simp
qed

lemma returned_flag_unset:
  assumes "wait_for_positions L env w = (tr, Some (ps, w', env'))"
  shows "\<not> position_event w'"
proof -
  obtain tr1 env1 w1 where p: "poll L [0..<10] env w = (tr1, env1, w1)"
    by (metis prod_cases3)
  show ?thesis
  proof (cases "event_wait L env1 w1")
    case None
    with p assms show ?thesis by (simp add: wait_for_positions_def)
  next
    case (Some r)
    obtain env2 w2 where r: "r = (env2, w2)" by (cases r)
    from p Some r assms have "w' = w2\<lparr>position_event := False\<rparr>"
      by (simp add: wait_for_positions_def)
    then show ?thesis by simp
  qed
qed





















text \<open>
  Claim C5. Whenever a call returns, the flag is unset in the state it leaves; and a
  second call from that state, during which no batch-end callback is delivered, goes
  through all ten poll iterations and then stays in the wait for ever.
\<close>

theorem wait_for_positions_clears_then_blocks:
  assumes "wait_for_positions L env w = (tr, Some (ps, w', env'))"
    and "\<forall>b\<in>set env2. PositionEndCb \<notin> set b"
  shows "\<not> position_event w'
         \<and> wait_for_positions L env2 w' = (unarmed_polls [0..<10] @ [EventWait], None)"
proof -
  have f: "\<not> position_event w'" using assms(1) by (rule returned_flag_unset)
  have q: "quiet env2" using assms(2) by (simp add: quiet_def)
  from poll_quiet[OF f q, of L "[0..<10]"] obtain e1 w1 where
    "poll L [0..<10] env2 w' = (unarmed_polls [0..<10], e1, w1)" "\<not> position_event w1" "quiet e1"
    by blast
  then have "wait_for_positions L env2 w' = (unarmed_polls [0..<10] @ [EventWait], None)"
    by (simp add: wait_for_positions_def event_wait_quiet)
  with f show ?thesis by simp
qed



lemma upt_10: "[0..<10] = [0, 1, 2, 3, 4, 5, 6, 7, 8, 9::nat]"
  by code_simp








theorem wait_for_positions_clears_then_blocks_witness:
  "wait_for_positions sample_externals [[PositionEndCb]] IBKRWrapper_init
     = ([IsSet False, Sleep 0, IsSet True, EventWait, Clear], Some ({}, IBKRWrapper_init, []))
   \<and> PositionEndCb \<notin> set [OtherCb]
   \<and> \<not> position_event IBKRWrapper_init
   \<and> wait_for_positions sample_externals [[OtherCb]] IBKRWrapper_init
       = (unarmed_polls [0..<10] @ [EventWait], None)"
proof -
  have first: "wait_for_positions sample_externals [[PositionEndCb]] IBKRWrapper_init
     = ([IsSet False, Sleep 0, IsSet True, EventWait, Clear], Some ({}, IBKRWrapper_init, []))"
    by (simp add: wait_for_positions_def upt_10 deliver_batch_def deliver_def next_batch_def
          positionEnd_def IBKRWrapper_init_def)
  have q: "\<forall>b\<in>set [[OtherCb]]. PositionEndCb \<notin> set b" by simp
  show ?thesis
    using first wait_for_positions_clears_then_blocks [OF first q] by simp
qed

section \<open>The pump loop and the connection: properties\<close>

lemma apply_event_frame:
  "wrapper (apply_event ev c) = wrapper c"
  "reported_errors (apply_event ev c) = reported_errors c"
  "interpreted (apply_event ev c) = interpreted c"
  "disconnect_calls (apply_event ev c) = disconnect_calls c"
  by (cases ev; simp)+

lemma fold_apply_event_frame:
  "wrapper (fold apply_event evs c) = wrapper c
   \<and> reported_errors (fold apply_event evs c) = reported_errors c
   \<and> interpreted (fold apply_event evs c) = interpreted c
   \<and> disconnect_calls (fold apply_event evs c) = disconnect_calls c"
  by (induction evs arbitrary: c) (simp_all add: apply_event_frame)

lemma loop_body_disconnect_calls:
  "disconnect_calls (body_client (loop_body L batch c)) = disconnect_calls c"
  by (simp add: loop_body_def body_client_def Let_def wrapper_error_def fold_apply_event_frame
        split: list.splits sum.splits)

lemma run_loop_unfold_guard_false:
  "\<not> isConnected c \<Longrightarrow> msg_queue c = [] \<Longrightarrow> run_loop L env c = Some (GuardExhausted, c)"
  by (subst run_loop.simps) simp

lemma run_loop_unfold_guard_true:
  "isConnected c \<or> msg_queue c \<noteq> [] \<Longrightarrow>
   run_loop L env c =
     (case loop_body L (next_batch env) c of
        Continue c' \<Rightarrow> run_loop L (drop 1 env) c'
      | Break c' \<Rightarrow> Some (Broke, c')
      | Raise e c' \<Rightarrow> Some (Raised e, c'))"
  by (subst run_loop.simps) simp

lemmas run_loop_induct = run_loop.raw_induct[rotated, consumes 1, case_names step]

lemma run_loop_disconnect_calls:
  assumes "run_loop L env c = Some y"
  shows "disconnect_calls (snd y) = disconnect_calls c"
  using assms
proof (induction rule: run_loop_induct)
  case (step rl L env c y)
  show ?case
  proof (cases "isConnected c \<or> msg_queue c \<noteq> []")
    case False
    with step(2) show ?thesis by auto
  next
    case True
    note g = this
    have frame: "disconnect_calls (body_client (loop_body L (next_batch env) c)) = disconnect_calls c"
      by (rule loop_body_disconnect_calls)
    show ?thesis
    proof (cases "loop_body L (next_batch env) c")
      case (Continue c1)
      with g step(2) have "rl L (drop 1 env) c1 = Some y" by simp
      then have "disconnect_calls (snd y) = disconnect_calls c1" by (rule step(1))
      with frame Continue show ?thesis by (simp add: body_client_def)
    next
      case (Break c1)
      with g step(2) have "snd y = c1" by auto
      with frame Break show ?thesis by (simp add: body_client_def)
    next
      case (Raise e c1)
      with g step(2) have "snd y = c1" by auto
      with frame Raise show ?thesis by (simp add: body_client_def)
    qed
  qed
qed

lemma run_loop_guard_exit:
  assumes "run_loop L env c = Some y"
  shows "fst y = GuardExhausted \<longrightarrow> \<not> isConnected (snd y) \<and> msg_queue (snd y) = []"
  using assms
proof (induction rule: run_loop_induct)
  case (step rl L env c y)
  show ?case
  proof (cases "isConnected c \<or> msg_queue c \<noteq> []")
    case False
    with step(2) show ?thesis by auto
  next
    case True
    note g = this
    show ?thesis
    proof (cases "loop_body L (next_batch env) c")
      case (Continue c1)
      with g step(2) have "rl L (drop 1 env) c1 = Some y" by simp
      then show ?thesis by (rule step(1))
    next
      case (Break c1)
      with g step(2) have "fst y = Broke" by auto
      then show ?thesis by simp
    next
      case (Raise e c1)
      with g step(2) have "fst y = Raised e" by auto
      then show ?thesis by simp
    qed
  qed
qed


lemma run_Continue:
  "isConnected c \<or> msg_queue c \<noteq> [] \<Longrightarrow> loop_body L (next_batch env) c = Continue c1 \<Longrightarrow>
   run L env c = run L (drop 1 env) c1"
  by (simp add: run_def run_loop_unfold_guard_true)

lemma run_Break:
  "isConnected c \<or> msg_queue c \<noteq> [] \<Longrightarrow> loop_body L (next_batch env) c = Break c1 \<Longrightarrow>
   run L env c = Some (Inr (disconnect c1))"
  by (simp add: run_def run_loop_unfold_guard_true)

lemma run_Raise:
  "isConnected c \<or> msg_queue c \<noteq> [] \<Longrightarrow> loop_body L (next_batch env) c = Raise e c1 \<Longrightarrow>
   run L env c = Some (Inl (e, c1))"
  by (simp add: run_def run_loop_unfold_guard_true)

lemma run_guard_false:
  "\<not> isConnected c \<Longrightarrow> msg_queue c = [] \<Longrightarrow> run L env c = Some (Inr (disconnect c))"
  by (simp add: run_def run_loop_unfold_guard_false)

lemma loop_body_oversized:
  assumes "msg_queue (fold apply_event batch c) = text # rest" "MAX_MSG_LEN L < length text"
  shows "loop_body L batch c =
           Break (wrapper_error ((fold apply_event batch c)\<lparr>msg_queue := rest\<rparr>)
                    (NO_VALID_ID L) (BAD_LENGTH_code L) (BAD_LENGTH_msg L, length text, text))"
  using assms by (simp add: loop_body_def Let_def)

text \<open>
  Claim C7. At any pass of the loop (the guard holds for the client \<open>c\<close> the pass starts
  from) in which the message pulled from the queue is longer than the maximum, \<open>run\<close>
  returns: one bad-length error has been reported to the wrapper, nothing has been handed
  to the decoder and the wrapper is as before, the messages queued behind the oversized one
  are still in the queue, \<open>disconnect()\<close> has been called once and the connection is
  \<open>Disconnected\<close>.
\<close>

theorem oversized_message_stops_pump:
  assumes "isConnected c \<or> msg_queue c \<noteq> []"
    and "msg_queue (fold apply_event (next_batch env) c) = text # rest"
    and "MAX_MSG_LEN L < length text"
  shows "\<exists>c'. run L env c = Some (Inr c')
           \<and> connState c' = Disconnected
           \<and> disconnect_calls c' = disconnect_calls c + 1
           \<and> reported_errors c'
               = reported_errors c
                 @ [(NO_VALID_ID L, BAD_LENGTH_code L, BAD_LENGTH_msg L, length text, text)]
           \<and> interpreted c' = interpreted c
           \<and> wrapper c' = wrapper c
           \<and> msg_queue c' = rest"
proof -
  let ?c1 = "fold apply_event (next_batch env) c"
  let ?c2 = "wrapper_error (?c1\<lparr>msg_queue := rest\<rparr>)
               (NO_VALID_ID L) (BAD_LENGTH_code L) (BAD_LENGTH_msg L, length text, text)"
  have "loop_body L (next_batch env) c = Break ?c2"
    using assms(2,3) by (rule loop_body_oversized)
  with assms(1) have r: "run L env c = Some (Inr (disconnect ?c2))"
    by (rule run_Break)
  have f: "wrapper ?c1 = wrapper c" "reported_errors ?c1 = reported_errors c"
    "interpreted ?c1 = interpreted c" "disconnect_calls ?c1 = disconnect_calls c"
    using fold_apply_event_frame[of "next_batch env" c] by simp_all
  show ?thesis
    using r f by (intro exI[of _ "disconnect ?c2"]) (simp add: disconnect_def wrapper_error_def)
qed

lemma run_result_cleanup:
  assumes "run L env c = Some r"
  shows "case r of Inr c' \<Rightarrow> connState c' = Disconnected \<and> disconnect_calls c' = disconnect_calls c + 1
                 | Inl (e, c') \<Rightarrow> disconnect_calls c' = disconnect_calls c"
proof -
  from assms obtain y where y: "run_loop L env c = Some y"
    by (cases "run_loop L env c") (simp_all add: run_def)
  have d: "disconnect_calls (snd y) = disconnect_calls c"
    using y by (rule run_loop_disconnect_calls)
  obtain x c1 where yx: "y = (x, c1)" by (cases y)
  show ?thesis
    using assms y yx d by (cases x) (auto simp: run_def disconnect_def)
qed

text \<open>
  The exits of the loop itself. With the transport reporting disconnected and the queue
  empty the loop leaves through its guard at once; while either fails to hold it does
  not, and whenever it does leave through the guard the client is disconnected with an
  empty queue. Every run that returns (through the guard or through the \<open>break\<close>) has
  called \<open>disconnect()\<close> exactly once, after the loop, and is \<open>Disconnected\<close>.
\<close>

lemma pump_guard_and_normal_exit:
  "(\<not> isConnected c \<and> msg_queue c = [] \<longrightarrow> run_loop L env c = Some (GuardExhausted, c))
   \<and> (isConnected c \<or> msg_queue c \<noteq> [] \<longrightarrow> run_loop L env c \<noteq> Some (GuardExhausted, c))
   \<and> (run_loop L env c = Some (GuardExhausted, c') \<longrightarrow> \<not> isConnected c' \<and> msg_queue c' = [])
   \<and> (run L env c = Some (Inr c') \<longrightarrow>
         connState c' = Disconnected \<and> disconnect_calls c' = disconnect_calls c + 1)"
proof (intro conjI impI)
  assume "\<not> isConnected c \<and> msg_queue c = []"
  then show "run_loop L env c = Some (GuardExhausted, c)"
    by (simp add: run_loop_unfold_guard_false)
next
  assume g: "isConnected c \<or> msg_queue c \<noteq> []"
  show "run_loop L env c \<noteq> Some (GuardExhausted, c)"
  proof
    assume "run_loop L env c = Some (GuardExhausted, c)"
    from run_loop_guard_exit[OF this] g show False by simp
  qed
next
  assume "run_loop L env c = Some (GuardExhausted, c')"
  from run_loop_guard_exit[OF this] show "\<not> isConnected c'" "msg_queue c' = []" by simp_all
next
  assume "run L env c = Some (Inr c')"
  from run_result_cleanup[OF this]
  show "connState c' = Disconnected" "disconnect_calls c' = disconnect_calls c + 1" by simp_all
qed

text \<open>
  Claim C9, as the code has it. Every call of \<open>connect\<close> opens the transport and starts
  one more pump thread, whatever the connection state. The test is in the caller:
  \<open>ensure_ibkr_connection\<close> runs the wrapped function on the untouched client when
  \<open>is_connected()\<close> holds, and calls \<open>connect\<close> first when it does not.
\<close>

theorem connect_unguarded_ensure_guarded:
  "pump_threads (connect hs host port cid c) = pump_threads c + 1
   \<and> transport_opens (connect hs host port cid c) = transport_opens c + 1
   \<and> (is_connected c \<longrightarrow> ensure_ibkr_connection hs host port cid func c = func c)
   \<and> (\<not> is_connected c \<longrightarrow>
         ensure_ibkr_connection hs host port cid func c = func (connect hs host port cid c))"
  by (simp add: connect_def EClient_connect_def ensure_ibkr_connection_def Let_def)


lemmas sample_defs = sample_externals_def sample_decode_def client_in_def isConnected_def
  next_batch_def loop_body_def decoder_interpret_def wrapper_error_def disconnect_def Let_def

theorem oversized_message_stops_pump_witness:
  "isConnected (client_in Connected [''0123456789'', ''end''])
   \<and> msg_queue (fold apply_event (next_batch [[Arrive ''pos'']])
                  (client_in Connected [''0123456789'', ''end'']))
       = ''0123456789'' # [''end'', ''pos'']
   \<and> MAX_MSG_LEN sample_externals < length ''0123456789''
   \<and> run sample_externals [[Arrive ''pos'']] (client_in Connected [''0123456789'', ''end''])
       = Some (Inr \<lparr>connState = Disconnected, msg_queue = [''end'', ''pos''],
                     wrapper = IBKRWrapper_init,
                     reported_errors = [(- 1, 507, ''Bad message length'', 10, ''0123456789'')],
                     interpreted = [], disconnect_calls = 1, transport_opens = 0,
                     pump_threads = 0\<rparr>)"
proof -
  let ?c = "client_in Connected [''0123456789'', ''end'']"
  have g: "isConnected ?c \<or> msg_queue ?c \<noteq> []" by (simp add: sample_defs)
  have q: "msg_queue (fold apply_event (next_batch [[Arrive ''pos'']]) ?c)
             = ''0123456789'' # [''end'', ''pos'']"
    by (simp add: sample_defs)
  have m: "MAX_MSG_LEN sample_externals < length ''0123456789''" by (simp add: sample_defs)
  have b: "loop_body sample_externals (next_batch [[Arrive ''pos'']]) ?c
             = Break \<lparr>connState = Connected, msg_queue = [''end'', ''pos''],
                     wrapper = IBKRWrapper_init,
                     reported_errors = [(- 1, 507, ''Bad message length'', 10, ''0123456789'')],
                     interpreted = [], disconnect_calls = 0, transport_opens = 0,
                     pump_threads = 0\<rparr>"
    by (simp add: sample_defs)
  show ?thesis
    using oversized_message_stops_pump [OF g q m] run_Break [OF g b]
    by (simp add: sample_defs)
qed

text \<open>
  \<open>connect\<close> on a client that is already \<open>Connected\<close> is not a no-op: it opens the
  transport again and starts a pump thread.
\<close>

theorem connect_twice_starts_second_pump:
  "connState (client_in Connected []) = Connected
   \<and> connect Connected ''localhost'' 4001 1 (client_in Connected []) \<noteq> client_in Connected []
   \<and> pump_threads (client_in Connected []) = 0
   \<and> pump_threads (connect Connected ''localhost'' 4001 1 (client_in Connected [])) = 1
   \<and> transport_opens (connect Connected ''localhost'' 4001 1 (client_in Connected [])) = 1"
  by (simp add: connect_def EClient_connect_def client_in_def Let_def)

theorem connect_unguarded_ensure_guarded_witness:
  "is_connected (client_in Connected [])
   \<and> ensure_ibkr_connection Connected ''localhost'' 4001 1 (\<lambda>c. (pump_threads c, c))
         (client_in Connected [])
       = (0, client_in Connected [])
   \<and> \<not> is_connected (client_in Disconnected [])
   \<and> ensure_ibkr_connection Connected ''localhost'' 4001 1 (\<lambda>c. (pump_threads c, c))
         (client_in Disconnected [])
       = (1, \<lparr>connState = Connected, msg_queue = [], wrapper = IBKRWrapper_init,
              reported_errors = [], interpreted = [], disconnect_calls = 0,
              transport_opens = 1, pump_threads = 1\<rparr>)"
  using connect_unguarded_ensure_guarded
          [of Connected "''localhost''" 4001 1 "client_in Connected []" "\<lambda>c. (pump_threads c, c)"]
        connect_unguarded_ensure_guarded
          [of Connected "''localhost''" 4001 1 "client_in Disconnected []" "\<lambda>c. (pump_threads c, c)"]
  by (simp add: is_connected_def isConnected_def client_in_def connect_def EClient_connect_def Let_def)


lemma run_queued_tick:
  "run sample_externals [] (client_in Connected [''tick''])
     = Some (Inl (AttributeError ''_market_data_request_ids'',
                  \<lparr>connState = Connected, msg_queue = [], wrapper = IBKRWrapper_init,
                    reported_errors = [], interpreted = [[''tick'']], disconnect_calls = 0,
                    transport_opens = 0, pump_threads = 0\<rparr>))"
proof -
  let ?c = "client_in Connected [''tick'']"
  have g: "isConnected ?c \<or> msg_queue ?c \<noteq> []" by (simp add: sample_defs)
  have b: "loop_body sample_externals (next_batch []) ?c
             = Raise (AttributeError ''_market_data_request_ids'')
                 \<lparr>connState = Connected, msg_queue = [], wrapper = IBKRWrapper_init,
                    reported_errors = [], interpreted = [[''tick'']], disconnect_calls = 0,
                    transport_opens = 0, pump_threads = 0\<rparr>"
    by (simp add: sample_defs tickPrice_raises)
  show ?thesis by (rule run_Raise [OF g b])
qed

text \<open>
  Claim C8. Every way the pump ends should be followed by the disconnect cleanup, exactly
  once. That holds for the two exits of the loop itself, but not when an exception ends
  the pump. Here the pump is connected and a price tick is queued: the decoder invokes
  \<open>tickPrice\<close>, which raises; nothing in \<open>run\<close> catches the exception, so the statement
  after the loop is not reached. No \<open>disconnect()\<close> call is made and the connection state
  is still \<open>Connected\<close>.
\<close>

theorem pump_exception_skips_cleanup:
  "run sample_externals [] (client_in Connected [''tick''])
     = Some (Inl (AttributeError ''_market_data_request_ids'',
                  \<lparr>connState = Connected, msg_queue = [], wrapper = IBKRWrapper_init,
                    reported_errors = [], interpreted = [[''tick'']], disconnect_calls = 0,
                    transport_opens = 0, pump_threads = 0\<rparr>))
   \<and> disconnect_calls (client_in Connected [''tick'']) = 0"
  using run_queued_tick by (simp add: client_in_def)

end
